theory Spec2Isabelle
  imports Complex_Main
begin

section \<open>Masked batches of CT scans (preprocessing/ct\_masked\_batch.py)\<close>

text \<open>
  A shallow embedding of class \<open>CTImagesMaskedBatch\<close>. Python integers are \<open>int\<close>,
  \<open>float64\<close> values are \<open>real\<close> (rounding of floating point arithmetic is not
  modelled), every raise of the source is an \<open>Inl\<close> result, and the draws of
  \<open>np.random\<close> are read from an explicit generator value.
\<close>

subsection \<open>Errors and numpy scalars\<close>

datatype error =
    AttributeError | IndexError | KeyError | TypeError | ValueError
  | NotImplementedError | AssertionError

type_synonym 'a vec3 = "'a \<times> 'a \<times> 'a"

fun vmap :: "('a \<Rightarrow> 'b) \<Rightarrow> 'a vec3 \<Rightarrow> 'b vec3" where
  "vmap f (a, b, c) = (f a, f b, f c)"

fun vzip :: "('a \<Rightarrow> 'b \<Rightarrow> 'c) \<Rightarrow> 'a vec3 \<Rightarrow> 'b vec3 \<Rightarrow> 'c vec3" where
  "vzip f (a, b, c) (d, e, g) = (f a d, f b e, f c g)"

fun vall :: "('a \<Rightarrow> bool) \<Rightarrow> 'a vec3 \<Rightarrow> bool" where
  "vall P (a, b, c) = (P a \<and> P b \<and> P c)"

text \<open>\<open>np.rint\<close>: the nearest integer, a tie going to the even neighbour.\<close>

definition rint :: "real \<Rightarrow> int" where
  "rint x =
     (let f = \<lfloor>x\<rfloor>; d = x - of_int f
      in if d < 1 / 2 then f
         else if 1 / 2 < d then f + 1
         else if even f then f else f + 1)"

text \<open>\<open>int(x)\<close> and \<open>.astype(np.int)\<close> on a float: truncation towards zero.\<close>

definition py_int :: "real \<Rightarrow> int" where
  "py_int x = (if 0 \<le> x then \<lfloor>x\<rfloor> else \<lceil>x\<rceil>)"

subsection \<open>Three-dimensional arrays\<close>

text \<open>
  An \<open>ndarray\<close> of three axes (z, y, x): its shape and its elements by index. A view
  \<open>a[lo:hi, :, :]\<close> follows Python's slice rules: a negative end counts from the
  back, and both ends are clipped to the axis.
\<close>

record 'a ndarray3 =
  shape0 :: nat
  shape1 :: nat
  shape2 :: nat
  elem :: "nat \<Rightarrow> nat \<Rightarrow> nat \<Rightarrow> 'a"

definition slice_index :: "int \<Rightarrow> nat \<Rightarrow> nat" where
  "slice_index i n = (if i < 0 then nat (max (i + int n) 0) else min (nat i) n)"

definition slice0 :: "'a ndarray3 \<Rightarrow> int \<Rightarrow> int \<Rightarrow> 'a ndarray3" where
  "slice0 a lo hi =
     (let s = slice_index lo (shape0 a); e = slice_index hi (shape0 a)
      in \<lparr>shape0 = e - s, shape1 = shape1 a, shape2 = shape2 a,
          elem = (\<lambda>z y x. elem a (s + z) y x)\<rparr>)"

definition slice3 :: "'a ndarray3 \<Rightarrow> int vec3 \<Rightarrow> int vec3 \<Rightarrow> 'a ndarray3" where
  "slice3 a lo hi =
     (case (lo, hi) of ((l0, l1, l2), (h0, h1, h2)) \<Rightarrow>
        let s0 = slice_index l0 (shape0 a); e0 = slice_index h0 (shape0 a);
            s1 = slice_index l1 (shape1 a); e1 = slice_index h1 (shape1 a);
            s2 = slice_index l2 (shape2 a); e2 = slice_index h2 (shape2 a)
        in \<lparr>shape0 = e0 - s0, shape1 = e1 - s1, shape2 = e2 - s2,
            elem = (\<lambda>z y x. elem a (s0 + z) (s1 + y) (s2 + x))\<rparr>)"

subsection \<open>The batch\<close>

text \<open>
  One row of the record array \<open>self.nodules\<close> (built by \<open>fetch_nodules_info\<close>);
  every field is a float triple in z, y, x order.
\<close>

record nodule =
  bias :: "real vec3"
  nod_origin :: "real vec3"
  nod_spacing :: "real vec3"
  center :: "real vec3"
  nod_size :: "real vec3"
  img_size :: "real vec3"

text \<open>
  The attributes of a \<open>CTImagesMaskedBatch\<close>. \<open>None\<close> is the attribute's value
  before it is loaded: \<open>__init__\<close> sets \<open>mask\<close>, \<open>nodules\<close> and
  \<open>nodules_pat_pos\<close> to \<open>None\<close>, and \<open>load\<close> with \<open>fmt='ndarray'\<close> stores
  whatever it is given for the others.
\<close>

record batch =
  indices :: "string list"
  data :: "real ndarray3 option"
  bounds :: "int list option"
  mask_arr :: "real ndarray3 option"
  nodules :: "nodule list option"
  nodules_pat_pos :: "nat list option"
  spacing :: "real vec3 list option"
  origin :: "real vec3 list option"

subsection \<open>Positive candidates: \<open>_shift_out_of_bounds\<close>\<close>

text \<open>
  The source computes on whole arrays; numpy applies each operation per nodule and per
  axis, so one axis of one nodule is:
\<close>

definition shift_axis :: "int \<Rightarrow> real \<Rightarrow> real \<Rightarrow> real \<Rightarrow> real \<Rightarrow> real" where
  "shift_axis sz c orig sp img =
     (let center_pix = \<bar>c - orig\<bar> / sp;
          start_pix = of_int (rint center_pix) - of_int (rint (of_int sz / 2));
          end_pix = start_pix + of_int sz;
          bias_upper = (if img < end_pix then end_pix - img else 0);
          start_pix = start_pix - bias_upper;
          end_pix = end_pix - bias_upper;
          bias_lower = (if start_pix < 0 then - start_pix else 0);
          start_pix = start_pix + bias_lower
      in start_pix)"

text \<open>\<open>start_pix\<close> of one nodule after both shifts, in the scan's own coordinates.\<close>

definition shifted_start :: "int vec3 \<Rightarrow> nodule \<Rightarrow> real vec3" where
  "shifted_start sz n =
     (case (sz, center n, nod_origin n, nod_spacing n, img_size n) of
        ((s0, s1, s2), (c0, c1, c2), (o0, o1, o2), (p0, p1, p2), (i0, i1, i2)) \<Rightarrow>
          (shift_axis s0 c0 o0 p0 i0, shift_axis s1 c1 o1 p1 i1, shift_axis s2 c2 o2 p2 i2))"

text \<open>The returned array: \<open>(start_pix + self.nodules.bias).astype(np.int)\<close>.\<close>

definition shift_out_of_bounds :: "nodule list \<Rightarrow> int vec3 \<Rightarrow> int vec3 list" where
  "shift_out_of_bounds nods sz =
     map (\<lambda>n. vmap py_int (vzip (+) (shifted_start sz n) (bias n))) nods"

subsection \<open>Random draws\<close>

text \<open>
  What \<open>np.random\<close> returns is an input of the model. \<open>choice_perm\<close> is the order in
  which \<open>np.random.choice(np.arange(n), size=k, replace=False)\<close> would draw its whole
  population, so the call returns its first \<open>k\<close> entries; \<open>choice_draw i\<close> is the
  \<open>i\<close>-th draw of \<open>np.random.choice(all_indices, n, replace=True)\<close>; \<open>rand i\<close> is row
  \<open>i\<close> of \<open>np.random.rand(n, 3)\<close>; \<open>hex_id i\<close> is the \<open>i\<close>-th identifier that
  \<open>make_indices\<close> derives from \<open>np.random.uniform\<close>.
\<close>

record rng =
  choice_perm :: "nat list"
  choice_draw :: "nat \<Rightarrow> nat"
  rand :: "nat \<Rightarrow> real vec3"
  hex_id :: "nat \<Rightarrow> string"

definition make_indices :: "rng \<Rightarrow> int \<Rightarrow> error + string list" where
  "make_indices g n = (if n < 0 then Inl ValueError else Inr (map (hex_id g) [0..<nat n]))"

subsection \<open>Random candidates: \<open>sample_random_nodules\<close>\<close>

text \<open>
  \<open>np.random.choice\<close> raises \<open>ValueError\<close> on a negative size and on an empty
  population it has to draw from. Indexing \<open>None\<close> raises \<open>TypeError\<close>, reading an
  attribute of \<open>None\<close> raises \<open>AttributeError\<close>, and an index past the end of
  \<open>self._bounds\<close> raises \<open>IndexError\<close>.
\<close>

definition sample_random_nodules ::
    "batch \<Rightarrow> rng \<Rightarrow> int \<Rightarrow> int vec3 \<Rightarrow> error + real vec3 list" where
  "sample_random_nodules b g n_nodules nodule_size =
     (if n_nodules < 0 \<or> (indices b = [] \<and> 0 < n_nodules) then Inl ValueError
      else
        let sampled_indices = map (choice_draw g) [0..<nat n_nodules] in
        case bounds b of
          None \<Rightarrow> Inl TypeError
        | Some bs \<Rightarrow>
            if list_ex (\<lambda>i. length bs \<le> i + 1) sampled_indices then Inl IndexError
            else
              (case data b of
                 None \<Rightarrow> Inl AttributeError
               | Some d \<Rightarrow>
                   Inr (map (\<lambda>(k, i).
                          let shape_z = bs ! i - bs ! (i + 1);
                              offset = (of_int (bs ! i), 0, 0);
                              data_shape = (of_int shape_z, of_nat (shape1 d), of_nat (shape2 d));
                              samples = vzip (*) (rand g k)
                                          (vzip (-) data_shape (vmap of_int nodule_size))
                          in vzip (+) samples offset)
                        (enumerate 0 sampled_indices))))"

subsection \<open>Patch extraction: \<open>get_nodules_jit\<close>\<close>

text \<open>
  \<open>out_arr[i, :, :, :] = data[...]\<close> broadcasts the slice to the patch's shape: every
  axis of the slice has the patch's extent or extent 1, otherwise the assignment raises
  \<open>ValueError\<close>. \<open>np.zeros\<close> raises \<open>ValueError\<close> on a negative extent.
\<close>

definition broadcastable :: "'a ndarray3 \<Rightarrow> nat vec3 \<Rightarrow> bool" where
  "broadcastable a shp =
     (case shp of (n0, n1, n2) \<Rightarrow>
        (shape0 a = n0 \<or> shape0 a = 1) \<and> (shape1 a = n1 \<or> shape1 a = 1) \<and>
        (shape2 a = n2 \<or> shape2 a = 1))"

definition bcast :: "nat \<Rightarrow> nat \<Rightarrow> nat" where
  "bcast n i = (if n = 1 then 0 else i)"

definition get_nodules_jit ::
    "real ndarray3 \<Rightarrow> int vec3 list \<Rightarrow> int vec3 \<Rightarrow> error + real ndarray3" where
  "get_nodules_jit d positions sz =
     (case sz of (s0, s1, s2) \<Rightarrow>
        if s0 < 0 \<or> s1 < 0 \<or> s2 < 0 then Inl ValueError
        else
          let blocks = map (\<lambda>p. slice3 d p (vzip (+) p sz)) positions;
              n_positions = length positions
          in if list_ex (\<lambda>blk. \<not> broadcastable blk (nat s0, nat s1, nat s2)) blocks
             then Inl ValueError
             else Inr \<lparr>shape0 = n_positions * nat s0, shape1 = nat s1, shape2 = nat s2,
                       elem = (\<lambda>z y x.
                         let blk = blocks ! (z div nat s0)
                         in elem blk (bcast (shape0 blk) (z mod nat s0))
                              (bcast (shape1 blk) y) (bcast (shape2 blk) x))\<rparr>)"

subsection \<open>Constructing a batch: \<open>__init__\<close> and \<open>load(fmt='ndarray')\<close>\<close>

text \<open>
  \<open>__init__\<close> of this class sets \<open>mask\<close>, \<open>nodules\<close> and \<open>nodules_pat_pos\<close> to
  \<open>None\<close> and \<open>spacing\<close>, \<open>origin\<close> to zeros; the data and the bounds are the parent
  class's, empty until \<open>load\<close> stores them.
\<close>

definition init_batch :: "string list \<Rightarrow> batch" where
  "init_batch index =
     \<lparr>indices = index, data = None, bounds = None, mask_arr = None, nodules = None,
      nodules_pat_pos = None,
      spacing = Some (replicate (length index) (0, 0, 0)),
      origin = Some (replicate (length index) (0, 0, 0))\<rparr>"

text \<open>The branch \<open>fmt == 'ndarray'\<close> of \<open>load\<close>.\<close>

definition load_ndarray ::
    "batch \<Rightarrow> real ndarray3 option \<Rightarrow> int list option \<Rightarrow> real vec3 list option \<Rightarrow>
     real vec3 list option \<Rightarrow> nodule list option \<Rightarrow> batch" where
  "load_ndarray b src bnds orig spac nods =
     b\<lparr>data := src, bounds := bnds, origin := orig, spacing := spac, nodules := nods\<rparr>"

subsection \<open>Sampling a batch of patches: \<open>sample_nodules\<close>\<close>

text \<open>Lines 386--387: \<open>cancer_n\<close>, the number of positive candidates.\<close>

definition cancer_count :: "real \<Rightarrow> int \<Rightarrow> nat \<Rightarrow> int" where
  "cancer_count share batch_size n_nodules =
     (let cancer_n = py_int (share * of_int batch_size)
      in if int n_nodules < cancer_n then int n_nodules else cancer_n)"

text \<open>
  Lines 378--397: the start coordinates of the positive (\<open>cancer_nodules\<close>) and of the
  random (\<open>random_nodules\<close>) candidates.
\<close>

definition sample_candidates ::
    "batch \<Rightarrow> rng \<Rightarrow> int \<Rightarrow> int vec3 \<Rightarrow> real \<Rightarrow> error + (int vec3 list \<times> real vec3 list)" where
  "sample_candidates b g batch_size nodule_size share =
     (case nodules b of
        None \<Rightarrow> Inl AttributeError
      | Some nods \<Rightarrow>
          (case nodules_pat_pos b of
             None \<Rightarrow> Inl AttributeError
           | Some npp \<Rightarrow>
               let n_nodules = length npp;
                   cancer_n = cancer_count share batch_size n_nodules
               in (case (if n_nodules = 0 then Inr []
                         else if cancer_n < 0 then Inl ValueError
                         else
                           (let sample_indices = take (nat cancer_n) (choice_perm g);
                                cancer_nodules = shift_out_of_bounds nods nodule_size
                            in if list_ex (\<lambda>i. length cancer_nodules \<le> i) sample_indices
                               then Inl IndexError
                               else Inr (map ((!) cancer_nodules) sample_indices))) of
                     Inl e \<Rightarrow> Inl e
                   | Inr cancer_nodules \<Rightarrow>
                       (case sample_random_nodules b g (batch_size - cancer_n) nodule_size of
                          Inl e \<Rightarrow> Inl e
                        | Inr random_nodules \<Rightarrow> Inr (cancer_nodules, random_nodules)))))"

text \<open>
  Lines 399--411: the patches are cut from the data and from the mask, and the new batch
  is built. The result is the pair of what the call returns and of \<open>self\<close> after it.
\<close>

definition sample_nodules ::
    "batch \<Rightarrow> rng \<Rightarrow> int \<Rightarrow> int vec3 \<Rightarrow> real \<Rightarrow> (error + batch) \<times> batch" where
  "sample_nodules b g batch_size nodule_size share =
     (case sample_candidates b g batch_size nodule_size share of
        Inl e \<Rightarrow> (Inl e, b)
      | Inr (cancer_nodules, random_nodules) \<Rightarrow>
          (let nodules_indices =
                 map (vmap py_int) (map (vmap of_int) cancer_nodules @ random_nodules)
           in (case data b of
                 None \<Rightarrow> (Inl TypeError, b)
               | Some d \<Rightarrow>
                   (case get_nodules_jit d nodules_indices nodule_size of
                      Inl e \<Rightarrow> (Inl e, b)
                    | Inr dat \<Rightarrow>
                        (case mask_arr b of
                           None \<Rightarrow> (Inl TypeError, b)
                         | Some m \<Rightarrow>
                             (case get_nodules_jit m nodules_indices nodule_size of
                                Inl e \<Rightarrow> (Inl e, b)
                              | Inr msk \<Rightarrow>
                                  (let bnds = map (\<lambda>i. int i * fst nodule_size)
                                                [0..<shape0 dat + 1]
                                   in (case make_indices g batch_size of
                                         Inl e \<Rightarrow> (Inl e, b)
                                       | Inr ids \<Rightarrow>
                                           (Inr ((load_ndarray (init_batch ids) (Some dat)
                                                    (Some bnds) None None None)
                                                  \<lparr>mask_arr := Some msk, origin := None,
                                                   spacing := None\<rparr>), b)))))))))"

subsection \<open>Views on one scan: \<open>get_mask\<close> and \<open>get_image\<close>\<close>

text \<open>
  Modelled from the spec: \<open>self.index.get_pos\<close> belongs to the index class, which is not
  in this file. The spec's ScanIndex gives every identifier a stable position
  \<open>0..N-1\<close>; an identifier that is not in the index has none.
\<close>

fun get_pos :: "string list \<Rightarrow> string \<Rightarrow> error + nat" where
  "get_pos [] patient_id = Inl KeyError"
| "get_pos (x # xs) patient_id =
     (if x = patient_id then Inr 0
      else (case get_pos xs patient_id of Inl e \<Rightarrow> Inl e | Inr p \<Rightarrow> Inr (Suc p)))"

text \<open>The argument of \<open>get_mask\<close>: a Python \<open>int\<close>, or an identifier of the index.\<close>

datatype scan_ref = Position int | Identifier string

definition get_mask :: "batch \<Rightarrow> scan_ref \<Rightarrow> error + real ndarray3" where
  "get_mask b index =
     (case (case index of
              Position i \<Rightarrow>
                (case bounds b of
                   None \<Rightarrow> Inl AttributeError
                 | Some bs \<Rightarrow>
                     if i < int (length bs) - 1 \<and> 0 \<le> i then Inr (nat i) else Inl IndexError)
            | Identifier patient_id \<Rightarrow> get_pos (indices b) patient_id) of
        Inl e \<Rightarrow> Inl e
      | Inr pos \<Rightarrow>
          (case bounds b of
             None \<Rightarrow> Inl TypeError
           | Some bs \<Rightarrow>
               if length bs \<le> pos + 1 then Inl IndexError
               else
                 (let lower = bs ! pos; upper = bs ! (pos + 1)
                  in (case mask_arr b of
                        None \<Rightarrow> Inl TypeError
                      | Some m \<Rightarrow> Inr (slice0 m lower upper)))))"

text \<open>
  Modelled from the spec: \<open>get_image\<close> is the parent class's; the spec gives it the
  contract of \<open>get_mask\<close>, over the data buffer.
\<close>

definition get_image :: "batch \<Rightarrow> scan_ref \<Rightarrow> error + real ndarray3" where
  "get_image b index =
     (case (case index of
              Position i \<Rightarrow>
                (case bounds b of
                   None \<Rightarrow> Inl AttributeError
                 | Some bs \<Rightarrow>
                     if i < int (length bs) - 1 \<and> 0 \<le> i then Inr (nat i) else Inl IndexError)
            | Identifier patient_id \<Rightarrow> get_pos (indices b) patient_id) of
        Inl e \<Rightarrow> Inl e
      | Inr pos \<Rightarrow>
          (case bounds b of
             None \<Rightarrow> Inl TypeError
           | Some bs \<Rightarrow>
               if length bs \<le> pos + 1 then Inl IndexError
               else
                 (let lower = bs ! pos; upper = bs ! (pos + 1)
                  in (case data b of
                        None \<Rightarrow> Inl TypeError
                      | Some d \<Rightarrow> Inr (slice0 d lower upper)))))"

subsection \<open>Building the mask: \<open>create_mask\<close>\<close>

text \<open>
  Modelled from the spec: \<open>make_mask_patient\<close> is imported from the module \<open>mask\<close>,
  which is not in this file. By the spec it rasterizes, for every nodule, the filled
  axis-aligned box \<open>[start, start + size)\<close> into the scan's mask at value 1, cropped to
  the scan, and leaves every other voxel as it was.
\<close>

definition in_box :: "int vec3 \<Rightarrow> int vec3 \<Rightarrow> nat \<Rightarrow> nat \<Rightarrow> nat \<Rightarrow> bool" where
  "in_box start sz z y x =
     (case (start, sz) of ((a0, a1, a2), (s0, s1, s2)) \<Rightarrow>
        a0 \<le> int z \<and> int z < a0 + s0 \<and> a1 \<le> int y \<and> int y < a1 + s1 \<and>
        a2 \<le> int x \<and> int x < a2 + s2)"

definition make_mask_patient ::
    "real ndarray3 \<Rightarrow> int vec3 list \<Rightarrow> int vec3 list \<Rightarrow> real ndarray3" where
  "make_mask_patient pat_mask start sz =
     pat_mask\<lparr>elem := (\<lambda>z y x.
        if z < shape0 pat_mask \<and> y < shape1 pat_mask \<and> x < shape2 pat_mask \<and>
           list_ex (\<lambda>(a, s). in_box a s z y x) (zip start sz)
        then 1 else elem pat_mask z y x)\<rparr>"

text \<open>
  \<open>get_mask\<close> returns a view: what \<open>make_mask_patient\<close> writes into it is written
  into \<open>self.mask[lower:upper, :, :]\<close>.
\<close>

definition write_view0 :: "'a ndarray3 \<Rightarrow> int \<Rightarrow> int \<Rightarrow> 'a ndarray3 \<Rightarrow> 'a ndarray3" where
  "write_view0 a lo hi v =
     (let s = slice_index lo (shape0 a); e = slice_index hi (shape0 a)
      in a\<lparr>elem := (\<lambda>z y x. if s \<le> z \<and> z < e then elem v (z - s) y x else elem a z y x)\<rparr>)"

definition set_mask_view :: "batch \<Rightarrow> nat \<Rightarrow> real ndarray3 \<Rightarrow> batch" where
  "set_mask_view b pos v =
     (case (bounds b, mask_arr b) of
        (Some bs, Some m) \<Rightarrow>
          b\<lparr>mask_arr := Some (write_view0 m (bs ! pos) (bs ! (pos + 1)) v)\<rparr>
      | _ \<Rightarrow> b)"

text \<open>\<open>arr[ndarray_mask, :]\<close>: the rows at which the boolean mask is true.\<close>

definition select_rows :: "bool list \<Rightarrow> 'a list \<Rightarrow> 'a list" where
  "select_rows ndarray_mask rows = map snd (filter fst (zip ndarray_mask rows))"

text \<open>
  The loop over \<open>self.indices\<close> (lines 305--310). \<open>self.nodules_pat_pos == pos\<close> is
  the scalar \<open>False\<close> when \<open>nodules_pat_pos\<close> is \<open>None\<close>; a boolean mask whose length
  is not the number of rows raises \<open>IndexError\<close>.
\<close>

fun create_mask_loop ::
    "int vec3 list \<Rightarrow> int vec3 list \<Rightarrow> string list \<Rightarrow> batch \<Rightarrow> (error + unit) \<times> batch" where
  "create_mask_loop start_pix size_pix [] b = (Inr (), b)"
| "create_mask_loop start_pix size_pix (patient_id # rest) b =
     (case get_pos (indices b) patient_id of
        Inl e \<Rightarrow> (Inl e, b)
      | Inr pos \<Rightarrow>
          (let ndarray_mask =
                 (case nodules_pat_pos b of None \<Rightarrow> [] | Some npp \<Rightarrow> map (\<lambda>p. p = pos) npp)
           in if list_ex (\<lambda>t. t) ndarray_mask
              then
                (case get_mask b (Identifier patient_id) of
                   Inl e \<Rightarrow> (Inl e, b)
                 | Inr view \<Rightarrow>
                     if length ndarray_mask \<noteq> length start_pix then (Inl IndexError, b)
                     else
                       create_mask_loop start_pix size_pix rest
                         (set_mask_view b pos
                            (make_mask_patient view
                               (select_rows ndarray_mask start_pix)
                               (select_rows ndarray_mask size_pix))))
              else create_mask_loop start_pix size_pix rest b))"

text \<open>The result is what the call returns (\<open>self\<close> or a raise) and \<open>self\<close> after it.\<close>

definition create_mask :: "batch \<Rightarrow> (error + unit) \<times> batch" where
  "create_mask b =
     (case nodules b of
        None \<Rightarrow> (Inl AttributeError, b)
      | Some nods \<Rightarrow>
          (let center_pix =
                 map (\<lambda>n. vmap rint (vzip (/) (vmap abs (vzip (-) (center n) (nod_origin n)))
                                        (nod_spacing n))) nods;
               size_pix = map (\<lambda>n. vmap rint (vzip (/) (nod_size n) (nod_spacing n))) nods;
               start_pix =
                 map (\<lambda>(c, s). vzip (-) c (vmap (\<lambda>v. rint (of_int v / 2)) s))
                   (zip center_pix size_pix)
           in create_mask_loop start_pix size_pix (indices b) b))"

subsection \<open>Resizing: \<open>_rescale_spacing\<close> and \<open>_init_rebuild\<close>\<close>

text \<open>
  The loop of lines 494--496: \<open>self.spacing[pos] *= old_shape / new_shape\<close> for every
  identifier of the batch, \<open>old_shape\<close> being the shape of the scan's view.
\<close>

fun rescale_loop :: "int vec3 \<Rightarrow> string list \<Rightarrow> batch \<Rightarrow> (error + unit) \<times> batch" where
  "rescale_loop new_shape [] b = (Inr (), b)"
| "rescale_loop new_shape (patient_id # rest) b =
     (case get_image b (Identifier patient_id) of
        Inl e \<Rightarrow> (Inl e, b)
      | Inr img \<Rightarrow>
          (let old_shape = (shape0 img, shape1 img, shape2 img)
           in (case get_pos (indices b) patient_id of
                 Inl e \<Rightarrow> (Inl e, b)
               | Inr pos \<Rightarrow>
                   (case spacing b of
                      None \<Rightarrow> (Inl TypeError, b)
                    | Some sp \<Rightarrow>
                        if length sp \<le> pos then (Inl IndexError, b)
                        else
                          rescale_loop new_shape rest
                            (b\<lparr>spacing := Some (sp[pos :=
                                 vzip (*) (sp ! pos)
                                   (vzip (/) (vmap of_nat old_shape)
                                      (vmap of_int new_shape))])\<rparr>)))))"

text \<open>
  Lines 498--505: the cached geometry of the nodule table. Assigning a field of the
  record array needs one row per nodule (\<open>ValueError\<close> otherwise), and the fancy
  indices \<open>nodules_pat_pos\<close> must be in range (\<open>IndexError\<close>).
\<close>

definition rescale_nodules :: "batch \<Rightarrow> int vec3 \<Rightarrow> (error + unit) \<times> batch" where
  "rescale_nodules b new_shape =
     (case nodules b of
        None \<Rightarrow> (Inr (), b)
      | Some nods \<Rightarrow>
          (case nodules_pat_pos b of
             None \<Rightarrow> (Inl AttributeError, b)
           | Some npp \<Rightarrow>
               (case spacing b of
                  None \<Rightarrow> (Inl TypeError, b)
                | Some sp \<Rightarrow>
                    if list_ex (\<lambda>p. length sp \<le> p) npp then (Inl IndexError, b)
                    else if length npp \<noteq> length nods then (Inl ValueError, b)
                    else
                      (let nods1 = map (\<lambda>(n, p). n\<lparr>nod_spacing := sp ! p,
                                                   img_size := vmap of_int new_shape,
                                                   bias := (0, 0, 0)\<rparr>) (zip nods npp);
                           b1 = b\<lparr>nodules := Some nods1\<rparr>
                       in if list_ex (\<lambda>p. length (indices b) \<le> p) npp
                          then (Inl IndexError, b1)
                          else
                            (Inr (),
                             b\<lparr>nodules := Some (map (\<lambda>(n, p).
                                  n\<lparr>bias := (of_int (int p * fst new_shape), 0, 0)\<rparr>)
                                  (zip nods1 npp))\<rparr>)))))"

definition rescale_spacing :: "batch \<Rightarrow> int vec3 \<Rightarrow> (error + unit) \<times> batch" where
  "rescale_spacing b new_shape =
     (case spacing b of
        None \<Rightarrow> (Inr (), b)
      | Some sp0 \<Rightarrow>
          (case rescale_loop new_shape (indices b) b of
             (Inl e, b1) \<Rightarrow> (Inl e, b1)
           | (Inr u, b1) \<Rightarrow> rescale_nodules b1 new_shape))"

text \<open>
  \<open>_init_rebuild\<close>, the first step of \<open>resize\<close>: without the keyword \<open>shape\<close> it
  raises \<open>TypeError\<close>, otherwise it rescales the spacing and hands over to the parent
  class, whose part is not in this file.
\<close>

definition init_rebuild :: "batch \<Rightarrow> int vec3 option \<Rightarrow> (error + unit) \<times> batch" where
  "init_rebuild b shape =
     (case shape of
        None \<Rightarrow> (Inl TypeError, b)
      | Some new_shape \<Rightarrow> rescale_spacing b new_shape)"

subsection \<open>The parallel mask build: \<open>_post_create_mask\<close>\<close>

text \<open>
  Modelled from the spec: \<open>any_action_failed\<close> belongs to the parallel dispatch, which
  is not in this file; a task's result is a value or the failure it raised.
\<close>

definition any_action_failed :: "(error + 'a) list \<Rightarrow> bool" where
  "any_action_failed list_of_res = list_ex (\<lambda>r. case r of Inl e \<Rightarrow> True | Inr v \<Rightarrow> False) list_of_res"

text \<open>\<open>assert c\<close> raises \<open>AssertionError\<close> when \<open>c\<close> is falsy; a string is falsy when empty.\<close>

definition py_assert_str :: "string \<Rightarrow> error + unit" where
  "py_assert_str msg = (if msg = [] then Inl AssertionError else Inr ())"

definition post_create_mask :: "batch \<Rightarrow> (error + 'a) list \<Rightarrow> error + batch" where
  "post_create_mask b list_of_res =
     (if any_action_failed list_of_res
      then (case py_assert_str ''Some actions failed during threading'' of
              Inl e \<Rightarrow> Inl e
            | Inr u \<Rightarrow> Inr b)
      else Inr b)"

subsection \<open>Writing to disk: \<open>dump\<close>\<close>

text \<open>
  An argument that is a \<open>str\<close>, or a list or tuple of \<open>str\<close>. Iterating over a
  \<open>str\<close> yields its characters, each a \<open>str\<close> of length one.
\<close>

datatype pyarg = PyStr string | PySeq "string list"

fun items :: "pyarg \<Rightarrow> string list" where
  "items (PyStr s) = map (\<lambda>c. [c]) s"
| "items (PySeq xs) = xs"

text \<open>One call of \<open>dump_blosc(data, index, path)\<close>: the blob it writes.\<close>

record blob =
  blob_data :: "real ndarray3"
  blob_index :: string
  blob_path :: string

text \<open>The inner loop, lines 453--459, for one scan; it returns the blobs written.\<close>

fun dump_scan ::
    "batch \<Rightarrow> string \<Rightarrow> int \<Rightarrow> int \<Rightarrow> (string \<times> string) list \<Rightarrow> (error + unit) \<times> blob list" where
  "dump_scan b patient_id lower upper [] = (Inr (), [])"
| "dump_scan b patient_id lower upper ((dump_type, dump_path) # rest) =
     (case (if dump_type = ''source''
            then (case data b of
                    None \<Rightarrow> Inl TypeError
                  | Some d \<Rightarrow>
                      Inr [\<lparr>blob_data = slice0 d lower upper, blob_index = patient_id,
                            blob_path = dump_path\<rparr>])
            else if dump_type = ''mask''
            then (case mask_arr b of
                    None \<Rightarrow> Inl TypeError
                  | Some m \<Rightarrow>
                      Inr [\<lparr>blob_data = slice0 m lower upper, blob_index = patient_id,
                            blob_path = dump_path\<rparr>])
            else Inr []) of
        Inl e \<Rightarrow> (Inl e, [])
      | Inr written \<Rightarrow>
          (case dump_scan b patient_id lower upper rest of
             (r, later) \<Rightarrow> (r, written @ later)))"

text \<open>The outer loop, lines 448--459.\<close>

fun dump_loop :: "batch \<Rightarrow> pyarg \<Rightarrow> pyarg \<Rightarrow> string list \<Rightarrow> (error + unit) \<times> blob list" where
  "dump_loop b dst dtype [] = (Inr (), [])"
| "dump_loop b dst dtype (patient_id # rest) =
     (case get_pos (indices b) patient_id of
        Inl e \<Rightarrow> (Inl e, [])
      | Inr patient_pos \<Rightarrow>
          (case bounds b of
             None \<Rightarrow> (Inl TypeError, [])
           | Some bs \<Rightarrow>
               if length bs \<le> patient_pos + 1 then (Inl IndexError, [])
               else
                 (case dump_scan b patient_id (bs ! patient_pos) (bs ! (patient_pos + 1))
                         (zip (items dtype) (items dst)) of
                    (Inl e, written) \<Rightarrow> (Inl e, written)
                  | (Inr u, written) \<Rightarrow>
                      (case dump_loop b dst dtype rest of
                         (r, later) \<Rightarrow> (r, written @ later)))))"

text \<open>
  The result is what the call returns and the list of the blobs it has written, in
  order. The parameter \<open>fmt\<close> is not read by the source.
\<close>

definition dump :: "batch \<Rightarrow> pyarg \<Rightarrow> string \<Rightarrow> pyarg \<Rightarrow> (error + unit) \<times> blob list" where
  "dump b dst fmt dtype =
     (case dtype of
        PySeq dts \<Rightarrow>
          if list_ex (\<lambda>dt. dt \<noteq> ''source'' \<and> dt \<noteq> ''mask'') dts then (Inl ValueError, [])
          else if length dts \<noteq> length (items dst) then (Inl ValueError, [])
          else dump_loop b dst dtype (indices b)
      | PyStr t \<Rightarrow>
          (case dst of
             PyStr d \<Rightarrow> dump_loop b dst dtype (indices b)
           | PySeq ds \<Rightarrow> (Inl ValueError, [])))"

subsection \<open>The spec's words, and predicates for the theorems\<close>

text \<open>
  The number of positive candidates as the spec words it:
  \<open>k = min(round(positive_share*batch_size), number_of_nodules)\<close>, with Python's
  \<open>round\<close>, which rounds a tie to the even neighbour as \<open>np.rint\<close> does.
\<close>

definition spec_positive_count :: "real \<Rightarrow> int \<Rightarrow> nat \<Rightarrow> int" where
  "spec_positive_count share batch_size n_nodules =
     min (rint (share * of_int batch_size)) (int n_nodules)"

text \<open>The shape of the scan at position \<open>p\<close>, as \<open>get_image(p).shape\<close> gives it.\<close>

definition scan_shape :: "batch \<Rightarrow> nat \<Rightarrow> real vec3" where
  "scan_shape b p =
     (case get_image b (Position (int p)) of
        Inl e \<Rightarrow> (0, 0, 0)
      | Inr img \<Rightarrow> vmap of_nat (shape0 img, shape1 img, shape2 img))"

text \<open>
  A nodule table, when the batch has one, comes with one owning position per nodule,
  each a position of the batch (what \<open>fetch_nodules_info\<close> builds).
\<close>

definition nodules_wf :: "batch \<Rightarrow> bool" where
  "nodules_wf b =
     (case nodules b of
        None \<Rightarrow> True
      | Some nods \<Rightarrow>
          (case nodules_pat_pos b of
             None \<Rightarrow> False
           | Some npp \<Rightarrow>
               length npp = length nods \<and> list_all (\<lambda>p. p < length (indices b)) npp))"

text \<open>One row of the spacing after the rescaling by \<open>old_shape / new_shape\<close>.\<close>

definition scale_row :: "real vec3 \<Rightarrow> real ndarray3 \<Rightarrow> int vec3 \<Rightarrow> real vec3" where
  "scale_row row img new_shape =
     vzip (*) row
       (vzip (/) (vmap of_nat (shape0 img, shape1 img, shape2 img)) (vmap of_int new_shape))"

text \<open>Setting the voxels of a region to 1: what every step of the mask build does.\<close>

definition paint_arr :: "(nat \<Rightarrow> nat \<Rightarrow> nat \<Rightarrow> bool) \<Rightarrow> real ndarray3 \<Rightarrow> real ndarray3" where
  "paint_arr S m = m\<lparr>elem := (\<lambda>z y x. if S z y x then 1 else elem m z y x)\<rparr>"

definition paint :: "(nat \<Rightarrow> nat \<Rightarrow> nat \<Rightarrow> bool) \<Rightarrow> batch \<Rightarrow> batch" where
  "paint S b = b\<lparr>mask_arr := map_option (paint_arr S) (mask_arr b)\<rparr>"

subsection \<open>Concrete batches\<close>

definition zeros :: "nat \<Rightarrow> nat \<Rightarrow> nat \<Rightarrow> real ndarray3" where
  "zeros n0 n1 n2 = \<lparr>shape0 = n0, shape1 = n1, shape2 = n2, elem = (\<lambda>z y x. 0)\<rparr>"

text \<open>One scan of shape (8, 4, 4) with two annotated nodules at its centre.\<close>

definition ex_nodule :: nodule where
  "ex_nodule = \<lparr>bias = (0, 0, 0), nod_origin = (0, 0, 0), nod_spacing = (1, 1, 1),
                center = (4, 2, 2), nod_size = (2, 2, 2), img_size = (8, 4, 4)\<rparr>"

definition ex_batch :: batch where
  "ex_batch = \<lparr>indices = [''scan0''], data = Some (zeros 8 4 4), bounds = Some [0, 8],
               mask_arr = Some (zeros 8 4 4), nodules = Some [ex_nodule, ex_nodule],
               nodules_pat_pos = Some [0, 0], spacing = Some [(1, 1, 1)],
               origin = Some [(0, 0, 0)]\<rparr>"

definition ex_rng :: rng where
  "ex_rng = \<lparr>choice_perm = [1, 0], choice_draw = (\<lambda>i. 0),
             rand = (\<lambda>i. (1 / 2, 1 / 2, 1 / 2)), hex_id = (\<lambda>i. ''00000000'')\<rparr>"

text \<open>
  A nodule of a scan of shape (10, 10, 10) centred on the near edge along z, on the far
  edge along y, and in the middle along x.
\<close>

definition ex_edge_nodule :: nodule where
  "ex_edge_nodule = \<lparr>bias = (0, 0, 0), nod_origin = (0, 0, 0), nod_spacing = (1, 1, 1),
                     center = (0, 10, 5), nod_size = (2, 2, 2), img_size = (10, 10, 10)\<rparr>"

text \<open>Two scans of depths 4 and 6, the second one owning a nodule.\<close>

definition ex_batch2 :: batch where
  "ex_batch2 = \<lparr>indices = [''scan0'', ''scan1''], data = Some (zeros 10 8 8),
                bounds = Some [0, 4, 10], mask_arr = Some (zeros 10 8 8),
                nodules = Some [ex_nodule\<lparr>bias := (4, 0, 0), nod_spacing := (2, 1, 1),
                                          img_size := (6, 8, 8)\<rparr>],
                nodules_pat_pos = Some [1], spacing = Some [(1, 1, 1), (2, 1, 1)],
                origin = Some [(0, 0, 0), (0, 0, 0)]\<rparr>"

lemmas ex_defs = ex_batch_def ex_rng_def ex_nodule_def zeros_def

section \<open>Properties\<close>

subsection \<open>Sampled batches\<close>

lemma ex_candidates_all_positive:
  "sample_candidates ex_batch ex_rng 2 (2, 2, 2) 1 = Inr ([(3, 1, 1), (3, 1, 1)], [])"
  by (simp add: sample_candidates_def ex_defs cancer_count_def py_int_def Let_def
      shift_out_of_bounds_def shifted_start_def shift_axis_def rint_def
      sample_random_nodules_def)

text \<open>
  C1. The claim: the batch that \<open>sample_nodules\<close> returns has \<open>bounds[i] = i *
  nodule_size[0]\<close> for \<open>i = 0..batch_size\<close>, and \<open>bounds[-1]\<close> is \<open>data.shape[0]\<close>.
  The source takes \<open>np.arange(data.shape[0] + 1)\<close>, not \<open>np.arange(batch_size + 1)\<close>:
  sampling two patches of size (2, 2, 2) gives a batch of two identifiers and of four
  slices, whose bounds have five entries and end at 8.
\<close>

theorem sample_nodules_bounds_too_long:
  "(case fst (sample_nodules ex_batch ex_rng 2 (2, 2, 2) 1) of
      Inl e \<Rightarrow> False
    | Inr r \<Rightarrow> length (indices r) = 2 \<and> map_option shape0 (data r) = Some 4 \<and>
               bounds r = Some [0, 2, 4, 6, 8] \<and> nodules r = None \<and>
               origin r = None \<and> spacing r = None)"
  unfolding sample_nodules_def ex_candidates_all_positive
  by (simp add: ex_defs Let_def get_nodules_jit_def slice3_def slice_index_def
      broadcastable_def py_int_def make_indices_def load_ndarray_def init_batch_def upt_rec)

text \<open>
  C2. The claim: a start coordinate of \<open>sample_random_nodules\<close> lies in
  \<open>[bias, bias + depth - nodule_size[0])\<close> along z. The source computes the depth as
  \<open>bounds[i] - bounds[i + 1]\<close>, which is negative: in the scan of depth 8 at bias 0, the
  draw 1/2 gives the start -5 along z, below the scan.
\<close>

theorem sample_random_nodules_below_scan:
  "sample_random_nodules ex_batch ex_rng 1 (2, 2, 2) = Inr [(- 5, 1, 1)]"
  by (simp add: sample_random_nodules_def ex_defs Let_def enumerate_eq_zip)

subsection \<open>Positive candidates stay inside the scan\<close>

lemma shift_axis_lower: "of_int sz \<le> img \<Longrightarrow> 0 \<le> shift_axis sz c orig sp img"
  by (simp add: shift_axis_def Let_def)

lemma shift_axis_upper:
  "of_int sz \<le> img \<Longrightarrow> shift_axis sz c orig sp img + of_int sz \<le> img"
  by (simp add: shift_axis_def Let_def)



subsection \<open>The number of positive and of random candidates\<close>

lemma length_sample_random:
  "sample_random_nodules b g n sz = Inr rs \<Longrightarrow> length rs = nat n"
  by (auto simp add: sample_random_nodules_def Let_def split: if_splits option.splits)

lemma ex_candidates:
  "sample_candidates ex_batch ex_rng 10 (4, 4, 4) (4 / 5) =
     Inr ([(2, 0, 0), (2, 0, 0)],
          [(- 6, 0, 0), (- 6, 0, 0), (- 6, 0, 0), (- 6, 0, 0),
           (- 6, 0, 0), (- 6, 0, 0), (- 6, 0, 0), (- 6, 0, 0)])"
  by (simp add: sample_candidates_def ex_defs cancer_count_def py_int_def Let_def
      shift_out_of_bounds_def shifted_start_def shift_axis_def rint_def
      sample_random_nodules_def enumerate_eq_zip upt_rec)




subsection \<open>Rescaling the spacing\<close>

lemma get_pos_member:
  "patient_id \<in> set ids \<Longrightarrow>
     \<exists>pos. get_pos ids patient_id = Inr pos \<and> pos < length ids \<and> ids ! pos = patient_id"
  by (induction ids) auto

lemma rescale_loop_ok:
  assumes "bounds b = Some bs" and "length bs = length (indices b) + 1"
    and "data b = Some d" and "distinct (indices b)"
  shows "length sp = length (indices b) \<Longrightarrow> set ps \<subseteq> set (indices b) \<Longrightarrow> distinct ps \<Longrightarrow>
     \<exists>sp'. rescale_loop new_shape ps (b\<lparr>spacing := Some sp\<rparr>) =
             (Inr (), b\<lparr>spacing := Some sp'\<rparr>) \<and>
       length sp' = length sp \<and>
       (\<forall>p < length (indices b). sp' ! p =
          (if indices b ! p \<in> set ps
           then scale_row (sp ! p) (slice0 d (bs ! p) (bs ! (p + 1))) new_shape
           else sp ! p))"
proof (induction ps arbitrary: sp)
  case Nil
  then show ?case by (intro exI[of _ sp]) simp
next
  case (Cons pid rest)
  from Cons.prems obtain pos where pos: "get_pos (indices b) pid = Inr pos"
    "pos < length (indices b)" "indices b ! pos = pid"
    using get_pos_member[of pid "indices b"] by auto
  define row where "row = scale_row (sp ! pos) (slice0 d (bs ! pos) (bs ! (pos + 1))) new_shape"
  define sp1 where "sp1 = sp[pos := row]"
  have img: "get_image (b\<lparr>spacing := Some sp\<rparr>) (Identifier pid) =
               Inr (slice0 d (bs ! pos) (bs ! (pos + 1)))"
    using assms pos by (simp add: get_image_def Let_def)
  have step: "rescale_loop new_shape (pid # rest) (b\<lparr>spacing := Some sp\<rparr>) =
              rescale_loop new_shape rest (b\<lparr>spacing := Some sp1\<rparr>)"
    using img pos Cons.prems(1)
    by (simp add: Let_def sp1_def row_def scale_row_def)
  have "length sp1 = length (indices b)" using Cons.prems by (simp add: sp1_def)
  moreover have "set rest \<subseteq> set (indices b)" "distinct rest" using Cons.prems by auto
  ultimately obtain sp' where sp': "rescale_loop new_shape rest (b\<lparr>spacing := Some sp1\<rparr>) =
        (Inr (), b\<lparr>spacing := Some sp'\<rparr>)" "length sp' = length sp1"
     "\<forall>p < length (indices b). sp' ! p =
          (if indices b ! p \<in> set rest
           then scale_row (sp1 ! p) (slice0 d (bs ! p) (bs ! (p + 1))) new_shape
           else sp1 ! p)"
    using Cons.IH[of sp1] by blast
  have notin: "pid \<notin> set rest" using Cons.prems by simp
  have final: "\<forall>p < length (indices b). sp' ! p =
          (if indices b ! p \<in> set (pid # rest)
           then scale_row (sp ! p) (slice0 d (bs ! p) (bs ! (p + 1))) new_shape
           else sp ! p)"
  proof (intro allI impI)
    fix p assume p: "p < length (indices b)"
    show "sp' ! p = (if indices b ! p \<in> set (pid # rest)
           then scale_row (sp ! p) (slice0 d (bs ! p) (bs ! (p + 1))) new_shape
           else sp ! p)"
    proof (cases "p = pos")
      case True
      then show ?thesis
        using sp'(3) p pos notin Cons.prems(1) by (simp add: sp1_def row_def)
    next
      case False
      then have "indices b ! p \<noteq> pid"
        using assms(4) p pos by (auto simp add: distinct_conv_nth)
      then show ?thesis
        using sp'(3) p False by (simp add: sp1_def)
    qed
  qed
  have "rescale_loop new_shape (pid # rest) (b\<lparr>spacing := Some sp\<rparr>) =
          (Inr (), b\<lparr>spacing := Some sp'\<rparr>)"
    using step sp'(1) by (simp only:)
  moreover have "length sp' = length sp" using sp'(2) by (simp add: sp1_def)
  ultimately show ?case using final by blast
qed

lemma vzip_scale_back:
  "vall (\<lambda>n. n \<noteq> 0) new_shape \<Longrightarrow>
   vzip (*) (vzip (*) row (vzip (/) old (vmap of_int new_shape))) (vmap of_int new_shape) =
   vzip (*) row (old :: real vec3)"
  by (cases row; cases old; cases new_shape) simp

lemma rescale_nodules_ok:
  assumes "spacing b = Some sp" and "nodules b = Some nods" and "nodules_pat_pos b = Some npp"
    and "length npp = length nods" and "list_all (\<lambda>p. p < length (indices b)) npp"
    and "length sp = length (indices b)"
  shows "\<exists>nods'. rescale_nodules b new_shape = (Inr (), b\<lparr>nodules := Some nods'\<rparr>) \<and>
     length nods' = length nods \<and>
     (\<forall>i < length nods. nod_spacing (nods' ! i) = sp ! (npp ! i) \<and>
        img_size (nods' ! i) = vmap of_int new_shape \<and>
        bias (nods' ! i) = (of_int (int (npp ! i) * fst new_shape), 0, 0) \<and>
        center (nods' ! i) = center (nods ! i) \<and>
        nod_origin (nods' ! i) = nod_origin (nods ! i) \<and>
        nod_size (nods' ! i) = nod_size (nods ! i))"
proof -
  have a: "\<not> list_ex (\<lambda>p. length sp \<le> p) npp" "\<not> list_ex (\<lambda>p. length (indices b) \<le> p) npp"
    using assms(5,6) by (auto simp add: list_ex_iff list_all_iff)
  define nods' where
    "nods' = map (\<lambda>(n, p). n\<lparr>bias := (of_int (int p * fst new_shape), 0, 0)\<rparr>)
      (zip (map (\<lambda>(n, p). n\<lparr>nod_spacing := sp ! p, img_size := vmap of_int new_shape,
                                  bias := (0, 0, 0)\<rparr>) (zip nods npp)) npp)"
  have "rescale_nodules b new_shape = (Inr (), b\<lparr>nodules := Some nods'\<rparr>)"
    using assms(1-4) a by (simp add: rescale_nodules_def Let_def nods'_def)
  moreover have "length nods' = length nods" using assms(4) by (simp add: nods'_def)
  moreover have "\<forall>i < length nods. nod_spacing (nods' ! i) = sp ! (npp ! i) \<and>
        img_size (nods' ! i) = vmap of_int new_shape \<and>
        bias (nods' ! i) = (of_int (int (npp ! i) * fst new_shape), 0, 0) \<and>
        center (nods' ! i) = center (nods ! i) \<and>
        nod_origin (nods' ! i) = nod_origin (nods ! i) \<and>
        nod_size (nods' ! i) = nod_size (nods ! i)"
    using assms(4) by (simp add: nods'_def)
  ultimately show ?thesis by blast
qed


lemma ex_rescale:
  "rescale_spacing ex_batch2 (2, 4, 4) =
     (Inr (), ex_batch2\<lparr>spacing := Some [(2, 2, 2), (6, 2, 2)],
        nodules := Some [ex_nodule\<lparr>bias := (2, 0, 0), nod_spacing := (6, 2, 2),
                                   img_size := (2, 4, 4)\<rparr>]\<rparr>)"
  by (simp add: rescale_spacing_def rescale_nodules_def ex_batch2_def ex_nodule_def zeros_def
      get_image_def slice0_def slice_index_def Let_def)


subsection \<open>The parallel mask build reports no failure\<close>

text \<open>
  C6. The claim: a failed task of \<open>create_mask_parallel\<close> is surfaced as an aggregate
  error. \<open>_post_create_mask\<close> asserts a non-empty string, which never raises: with the
  task of position 2 failed, it returns the batch.
\<close>

theorem post_create_mask_silent:
  "any_action_failed [Inr (), Inr (), Inl ValueError, Inr ()] \<and>
   post_create_mask b [Inr (), Inr (), Inl ValueError, Inr ()] = Inr b"
  by (simp add: any_action_failed_def post_create_mask_def py_assert_str_def)

lemma post_create_mask_never_raises: "post_create_mask b list_of_res = Inr b"
  by (simp add: post_create_mask_def py_assert_str_def)

subsection \<open>A batch without a nodule table\<close>

text \<open>
  C7. Without a nodule table, \<open>create_mask\<close> and \<open>sample_nodules\<close> raise
  \<open>AttributeError\<close> (the spec's \<open>MissingNodules\<close>) and leave the batch as it was; no
  draw is made and no buffer is read.
\<close>

theorem missing_nodules:
  assumes "nodules b = None"
  shows "create_mask b = (Inl AttributeError, b) \<and>
         sample_nodules b g batch_size nodule_size share = (Inl AttributeError, b)"
  using assms by (simp add: create_mask_def sample_nodules_def sample_candidates_def)

theorem missing_nodules_witness:
  "nodules (init_batch [''scan0'']) = None \<and>
   create_mask (init_batch [''scan0'']) = (Inl AttributeError, init_batch [''scan0'']) \<and>
   sample_nodules (init_batch [''scan0'']) ex_rng 10 (4, 4, 4) (4 / 5) =
     (Inl AttributeError, init_batch [''scan0''])"
proof -
  have h: "nodules (init_batch [''scan0'']) = None" by (simp add: init_batch_def)
  show ?thesis using h missing_nodules [OF h, of ex_rng 10 "(4, 4, 4)" "4 / 5"] by simp
qed

subsection \<open>The mask of one scan\<close>

text \<open>
  C8. For a batch of \<open>N\<close> scans with its mask and its \<open>N + 1\<close> bounds, \<open>get_mask(p)\<close>
  raises \<open>IndexError\<close> (the spec's \<open>OutOfRange\<close>) exactly when \<open>p < 0\<close> or \<open>p \<ge> N\<close>,
  and returns \<open>mask[bounds[p]:bounds[p + 1], :, :]\<close> otherwise.
\<close>

theorem get_mask_position:
  assumes "bounds b = Some bs" and "length bs = length (indices b) + 1"
    and "mask_arr b = Some m"
  shows "(get_mask b (Position p) = Inl IndexError \<longleftrightarrow> p < 0 \<or> int (length (indices b)) \<le> p) \<and>
         (0 \<le> p \<and> p < int (length (indices b)) \<longrightarrow>
            get_mask b (Position p) = Inr (slice0 m (bs ! nat p) (bs ! (nat p + 1))))"
  using assms by (auto simp add: get_mask_def Let_def)

theorem get_mask_position_witness:
  "bounds ex_batch2 = Some [0, 4, 10] \<and> mask_arr ex_batch2 = Some (zeros 10 8 8) \<and>
   get_mask ex_batch2 (Position (- 1)) = Inl IndexError \<and>
   get_mask ex_batch2 (Position 2) = Inl IndexError \<and>
   get_mask ex_batch2 (Position 1) = Inr (slice0 (zeros 10 8 8) 4 10)"
proof -
  have h1: "bounds ex_batch2 = Some [0, 4, 10]" by (simp add: ex_batch2_def)
  have h2: "length [0, 4, 10 :: int] = length (indices ex_batch2) + 1"
    by (simp add: ex_batch2_def)
  have h3: "mask_arr ex_batch2 = Some (zeros 10 8 8)" by (simp add: ex_batch2_def)
  have n: "int (length (indices ex_batch2)) = 2" by (simp add: ex_batch2_def)
  show ?thesis
    using h1 h3 get_mask_position [OF h1 h2 h3, of "- 1"]
      get_mask_position [OF h1 h2 h3, of 2] get_mask_position [OF h1 h2 h3, of 1]
    by (simp add: n)
qed

subsection \<open>Building the mask twice\<close>

lemma paint_arr_sel [simp]:
  "shape0 (paint_arr S m) = shape0 m" "shape1 (paint_arr S m) = shape1 m"
  "shape2 (paint_arr S m) = shape2 m"
  "elem (paint_arr S m) z y x = (if S z y x then 1 else elem m z y x)"
  by (simp_all add: paint_arr_def)

lemma paint_arr_none: "paint_arr (\<lambda>z y x. False) m = m"
  by (simp add: paint_arr_def)

lemma paint_arr_paint_arr:
  "paint_arr S (paint_arr T m) = paint_arr (\<lambda>z y x. S z y x \<or> T z y x) m"
  by (rule ndarray3.equality) (auto simp add: fun_eq_iff paint_arr_def)

text \<open>Writing the boxes into the view of a scan sets a region of the whole mask to 1.\<close>

lemma write_make_mask:
  "write_view0 m lo hi (make_mask_patient (slice0 m lo hi) st sz) =
     paint_arr (\<lambda>z y x. slice_index lo (shape0 m) \<le> z \<and> z < slice_index hi (shape0 m) \<and>
                  y < shape1 m \<and> x < shape2 m \<and>
                  list_ex (\<lambda>(a, d). in_box a d (z - slice_index lo (shape0 m)) y x)
                    (zip st sz)) m"
  by (rule ndarray3.equality)
     (auto simp add: fun_eq_iff paint_arr_def write_view0_def make_mask_patient_def
        slice0_def Let_def)

lemma paint_frame [simp]:
  "indices (paint S b) = indices b" "bounds (paint S b) = bounds b"
  "nodules (paint S b) = nodules b" "nodules_pat_pos (paint S b) = nodules_pat_pos b"
  by (simp_all add: paint_def)

lemma paint_none: "paint (\<lambda>z y x. False) b = b"
  by (cases "mask_arr b") (simp_all add: paint_def paint_arr_none)

lemma paint_paint: "paint S (paint T b) = paint (\<lambda>z y x. S z y x \<or> T z y x) b"
  by (cases "mask_arr b") (simp_all add: paint_def paint_arr_paint_arr)

lemma paint_commute: "paint S (paint T b) = paint T (paint S b)"
  by (simp add: paint_paint disj_commute)

lemma paint_idem: "paint S (paint S b) = paint S b"
  by (simp add: paint_paint)

lemma get_mask_paint_Inl:
  "get_mask b r = Inl e \<Longrightarrow> get_mask (paint T b) r = Inl e"
  by (auto simp add: get_mask_def paint_def Let_def
      split: sum.splits option.splits if_splits scan_ref.splits)

text \<open>One step of the loop paints a region that does not depend on the mask's voxels.\<close>

lemma step_paint:
  assumes "get_pos (indices b) pid = Inr pos" and "get_mask b (Identifier pid) = Inr view"
  shows "\<exists>S. \<forall>T. \<exists>v. get_mask (paint T b) (Identifier pid) = Inr v \<and>
           set_mask_view (paint T b) pos (make_mask_patient v st sz) = paint S (paint T b)"
proof -
  from assms obtain bs m where bs: "bounds b = Some bs" and len: "\<not> length bs \<le> pos + 1"
    and m: "mask_arr b = Some m"
    by (auto simp add: get_mask_def Let_def split: option.splits if_splits)
  define S where "S = (\<lambda>z y x. slice_index (bs ! pos) (shape0 m) \<le> z \<and>
      z < slice_index (bs ! (pos + 1)) (shape0 m) \<and> y < shape1 m \<and> x < shape2 m \<and>
      list_ex (\<lambda>(a, d). in_box a d (z - slice_index (bs ! pos) (shape0 m)) y x) (zip st sz))"
  have "\<forall>T. \<exists>v. get_mask (paint T b) (Identifier pid) = Inr v \<and>
           set_mask_view (paint T b) pos (make_mask_patient v st sz) = paint S (paint T b)"
    using assms(1) bs len m
    by (simp add: get_mask_def Let_def paint_def set_mask_view_def write_make_mask S_def)
  then show ?thesis by blast
qed

text \<open>
  The whole loop paints one region \<open>S\<close>, and it does so, with the same result, from
  every batch that differs from \<open>b\<close> by voxels already set to 1.
\<close>

lemma loop_paint:
  "\<exists>S. \<forall>T. create_mask_loop sp sz pids (paint T b) =
           (fst (create_mask_loop sp sz pids b), paint S (paint T b))"
proof (induction pids arbitrary: b)
  case Nil
  have "\<forall>T. create_mask_loop sp sz [] (paint T b) =
           (fst (create_mask_loop sp sz [] b), paint (\<lambda>z y x. False) (paint T b))"
    by (simp add: paint_none)
  then show ?case by blast
next
  case (Cons pid rest)
  show ?case
  proof (cases "get_pos (indices b) pid")
    case (Inl err)
    then have "\<forall>T. create_mask_loop sp sz (pid # rest) (paint T b) =
           (fst (create_mask_loop sp sz (pid # rest) b), paint (\<lambda>z y x. False) (paint T b))"
      by (simp add: paint_none)
    then show ?thesis by blast
  next
    case (Inr pos)
    define nm where
      "nm = (case nodules_pat_pos b of None \<Rightarrow> [] | Some npp \<Rightarrow> map (\<lambda>p. p = pos) npp)"
    show ?thesis
    proof (cases "list_ex (\<lambda>t. t) nm")
      case False
      from Cons.IH[of b] obtain S where
        S: "\<forall>T. create_mask_loop sp sz rest (paint T b) =
               (fst (create_mask_loop sp sz rest b), paint S (paint T b))" by blast
      have "\<forall>T. create_mask_loop sp sz (pid # rest) (paint T b) =
           (fst (create_mask_loop sp sz (pid # rest) b), paint S (paint T b))"
        using Inr False S by (simp add: nm_def Let_def)
      then show ?thesis by blast
    next
      case True
      show ?thesis
      proof (cases "get_mask b (Identifier pid)")
        case (Inl err)
        have "\<forall>T. create_mask_loop sp sz (pid # rest) (paint T b) =
           (fst (create_mask_loop sp sz (pid # rest) b), paint (\<lambda>z y x. False) (paint T b))"
          using \<open>get_pos (indices b) pid = Inr pos\<close> True Inl get_mask_paint_Inl[OF Inl]
          by (simp add: nm_def Let_def paint_none)
        then show ?thesis by blast
      next
        case view: (Inr view)
        from step_paint[OF Inr view, of "select_rows nm sp" "select_rows nm sz"]
        obtain S1 where S1: "\<forall>T. \<exists>v. get_mask (paint T b) (Identifier pid) = Inr v \<and>
           set_mask_view (paint T b) pos
             (make_mask_patient v (select_rows nm sp) (select_rows nm sz)) =
               paint S1 (paint T b)"
          by blast
        show ?thesis
        proof (cases "length nm \<noteq> length sp")
          case True
          have "\<forall>T. create_mask_loop sp sz (pid # rest) (paint T b) =
             (fst (create_mask_loop sp sz (pid # rest) b),
              paint (\<lambda>z y x. False) (paint T b))"
          proof
            fix T
            from S1 obtain v where "get_mask (paint T b) (Identifier pid) = Inr v" by blast
            then show "create_mask_loop sp sz (pid # rest) (paint T b) =
             (fst (create_mask_loop sp sz (pid # rest) b),
              paint (\<lambda>z y x. False) (paint T b))"
              using Inr \<open>list_ex (\<lambda>t. t) nm\<close> view True
              by (simp add: nm_def[symmetric] Let_def paint_none)
          qed
          then show ?thesis by blast
        next
          case False
          define b1 where "b1 = paint S1 b"
          from Cons.IH[of b1] obtain S2 where
            S2: "\<forall>T. create_mask_loop sp sz rest (paint T b1) =
               (fst (create_mask_loop sp sz rest b1), paint S2 (paint T b1))" by blast
          have base: "create_mask_loop sp sz (pid # rest) b = create_mask_loop sp sz rest b1"
          proof -
            from S1 obtain v where
              v: "get_mask (paint (\<lambda>z y x. False) b) (Identifier pid) = Inr v"
              and w: "set_mask_view (paint (\<lambda>z y x. False) b) pos
                (make_mask_patient v (select_rows nm sp) (select_rows nm sz)) =
                  paint S1 (paint (\<lambda>z y x. False) b)" by blast
            from v w have "v = view" and
              "set_mask_view b pos
                 (make_mask_patient view (select_rows nm sp) (select_rows nm sz)) = b1"
              using view by (simp_all add: paint_none b1_def)
            then show ?thesis
              using Inr \<open>list_ex (\<lambda>t. t) nm\<close> view False
              by (simp add: nm_def[symmetric] Let_def)
          qed
          have "\<forall>T. create_mask_loop sp sz (pid # rest) (paint T b) =
             (fst (create_mask_loop sp sz (pid # rest) b),
              paint (\<lambda>z y x. S2 z y x \<or> S1 z y x) (paint T b))"
          proof
            fix T
            from S1 obtain v where v: "get_mask (paint T b) (Identifier pid) = Inr v"
              and w: "set_mask_view (paint T b) pos
                (make_mask_patient v (select_rows nm sp) (select_rows nm sz)) =
                  paint S1 (paint T b)" by blast
            have "create_mask_loop sp sz (pid # rest) (paint T b) =
                  create_mask_loop sp sz rest (paint S1 (paint T b))"
              using Inr \<open>list_ex (\<lambda>t. t) nm\<close> v w False
              by (simp add: nm_def[symmetric] Let_def)
            also have "paint S1 (paint T b) = paint T b1"
              by (simp add: b1_def paint_commute)
            also have "create_mask_loop sp sz rest (paint T b1) =
               (fst (create_mask_loop sp sz rest b1), paint S2 (paint T b1))"
              using S2 by blast
            also have "paint S2 (paint T b1) =
                paint (\<lambda>z y x. S2 z y x \<or> S1 z y x) (paint T b)"
              by (simp add: b1_def paint_paint disj_commute disj_left_commute)
            finally have "create_mask_loop sp sz (pid # rest) (paint T b) =
             (fst (create_mask_loop sp sz rest b1),
              paint (\<lambda>z y x. S2 z y x \<or> S1 z y x) (paint T b))" .
            then show "create_mask_loop sp sz (pid # rest) (paint T b) =
             (fst (create_mask_loop sp sz (pid # rest) b),
              paint (\<lambda>z y x. S2 z y x \<or> S1 z y x) (paint T b))"
              by (simp only: base)
          qed
          then show ?thesis by blast
        qed
      qed
    qed
  qed
qed

lemma loop_painted:
  "\<exists>S. create_mask_loop sp sz pids b = (fst (create_mask_loop sp sz pids b), paint S b) \<and>
       create_mask_loop sp sz pids (paint S b) =
         (fst (create_mask_loop sp sz pids b), paint S b)"
proof -
  obtain S where S: "\<forall>T. create_mask_loop sp sz pids (paint T b) =
           (fst (create_mask_loop sp sz pids b), paint S (paint T b))"
    using loop_paint by blast
  from S have "create_mask_loop sp sz pids (paint (\<lambda>z y x. False) b) =
      (fst (create_mask_loop sp sz pids b), paint S (paint (\<lambda>z y x. False) b))"
    by (rule spec)
  then have one: "create_mask_loop sp sz pids b =
      (fst (create_mask_loop sp sz pids b), paint S b)"
    unfolding paint_none .
  from S have "create_mask_loop sp sz pids (paint S b) =
         (fst (create_mask_loop sp sz pids b), paint S (paint S b))"
    by (rule spec)
  then have two: "create_mask_loop sp sz pids (paint S b) =
         (fst (create_mask_loop sp sz pids b), paint S b)"
    unfolding paint_idem .
  from one two show ?thesis by (intro exI[of _ S] conjI)
qed

lemma loop_snd:
  assumes "create_mask_loop sp sz pids b = (fst (create_mask_loop sp sz pids b), paint S b)"
  shows "snd (create_mask_loop sp sz pids b) = paint S b"
proof -
  have "snd (create_mask_loop sp sz pids b) =
        snd (fst (create_mask_loop sp sz pids b), paint S b)"
    using assms by (rule arg_cong)
  then show ?thesis by (simp only: snd_conv)
qed

lemma loop_idem:
  "create_mask_loop sp sz pids (snd (create_mask_loop sp sz pids b)) =
     create_mask_loop sp sz pids b"
proof -
  obtain S where
    S: "create_mask_loop sp sz pids b = (fst (create_mask_loop sp sz pids b), paint S b)"
       "create_mask_loop sp sz pids (paint S b) =
         (fst (create_mask_loop sp sz pids b), paint S b)"
    using loop_painted by blast
  have "create_mask_loop sp sz pids (snd (create_mask_loop sp sz pids b)) =
        create_mask_loop sp sz pids (paint S b)"
    by (simp only: loop_snd[OF S(1)])
  also have "\<dots> = (fst (create_mask_loop sp sz pids b), paint S b)" by (rule S(2))
  also have "\<dots> = create_mask_loop sp sz pids b" by (rule S(1)[symmetric])
  finally show ?thesis .
qed

lemma loop_frame:
  "nodules (snd (create_mask_loop sp sz pids b)) = nodules b \<and>
   indices (snd (create_mask_loop sp sz pids b)) = indices b"
proof -
  obtain S where
    S: "create_mask_loop sp sz pids b = (fst (create_mask_loop sp sz pids b), paint S b)"
    using loop_painted by blast
  show ?thesis by (simp only: loop_snd[OF S] paint_frame simp_thms)
qed


text \<open>Every voxel of the mask is left as it was or set to 1.\<close>

lemma create_mask_paints: "\<exists>S. snd (create_mask b) = paint S b"
proof (cases "nodules b")
  case None
  then have "snd (create_mask b) = paint (\<lambda>z y x. False) b"
    by (simp add: create_mask_def paint_none)
  then show ?thesis by blast
next
  case (Some nods)
  obtain sp sz where c: "create_mask b = create_mask_loop sp sz (indices b) b"
    using Some by (simp add: create_mask_def Let_def)
  obtain S where
    S: "create_mask_loop sp sz (indices b) b =
          (fst (create_mask_loop sp sz (indices b) b), paint S b)"
    using loop_painted by blast
  have "snd (create_mask b) = paint S b"
    unfolding c by (rule loop_snd[OF S])
  then show ?thesis by blast
qed

subsection \<open>Dumping with string arguments\<close>

lemma dump_scan_chars:
  "list_all (\<lambda>(t, d). length t = 1) zs \<Longrightarrow> dump_scan b pid lo hi zs = (Inr (), [])"
  by (induction zs) auto

lemma dump_scan_str:
  "dump_scan b pid lo hi (zip (map (\<lambda>c. [c]) s) ds) = (Inr (), [])"
  by (rule dump_scan_chars) (auto simp add: list_all_iff dest!: set_zip_leftD)

lemma dump_loop_strings: "snd (dump_loop b dst (PyStr dtype) ids) = []"
  by (induction ids)
     (auto simp add: dump_scan_str split: sum.splits option.splits prod.splits)

text \<open>
  C10. With \<open>dtype\<close> and \<open>dst\<close> both given as strings, \<open>dump\<close> writes no blob, whatever
  the batch and the strings are: the inner loop pairs single characters, and none is
  \<open>'source'\<close> or \<open>'mask'\<close>.
\<close>

theorem dump_strings_write_nothing: "snd (dump b (PyStr dst) fmt (PyStr dtype)) = []"
  by (simp add: dump_def dump_loop_strings)

text \<open>
  The call of the docstring returns normally and has written nothing; with lists, the
  same batch is written.
\<close>

lemma dump_docstring_example:
  "dump ex_batch (PyStr ''./data/blosc_preprocessed'') ''blosc'' (PyStr ''source'') =
     (Inr (), [])"
  by (simp add: dump_def ex_batch_def)

lemma dump_lists_write:
  "dump ex_batch (PySeq [''./data/blosc_preprocessed'']) ''blosc'' (PySeq [''source'']) =
     (Inr (), [\<lparr>blob_data = slice0 (zeros 8 4 4) 0 8, blob_index = ''scan0'',
                blob_path = ''./data/blosc_preprocessed''\<rparr>])"
  by (simp add: dump_def ex_batch_def)

end
